theory Spec2Isabelle
  imports Main
begin

section \<open>Escrow phase engine of the query scripts\<close>

text \<open>
  The query scripts \<^verbatim>\<open>query-escrow-events.js\<close>, \<^verbatim>\<open>query-escrow-enhanced.js\<close> and the
  third, unnamed query script each declare the constant table \<^verbatim>\<open>PHASES\<close> and a function
  \<^verbatim>\<open>determineEscrowPhase(immutables, currentTime)\<close>.  Times are block timestamps and
  stored timelocks: integral JavaScript numbers, modelled as \<^typ>\<open>int\<close> seconds.  The
  console output of the function is presentation only and is left out; the text that
  \<^verbatim>\<open>new Date(t * 1000).toISOString()\<close> renders is kept symbolic (constructor \<open>ISOString\<close>
  applied to the millisecond argument), the range limit of \<^verbatim>\<open>Date\<close> is not modelled.
\<close>

subsection \<open>Data\<close>

text \<open>The table \<^verbatim>\<open>PHASES\<close>, in the order of its keys.\<close>

datatype phase =
  DEPLOYED
| FINALITY
| PRIVATE_WITHDRAWAL
| PUBLIC_WITHDRAWAL
| PRIVATE_CANCELLATION
| PUBLIC_CANCELLATION
| EXPIRED

text \<open>Position of a phase in \<^verbatim>\<open>PHASES\<close>; the order of the lifecycle.\<close>

fun phase_index :: "phase \<Rightarrow> nat" where
  "phase_index DEPLOYED = 0"
| "phase_index FINALITY = 1"
| "phase_index PRIVATE_WITHDRAWAL = 2"
| "phase_index PUBLIC_WITHDRAWAL = 3"
| "phase_index PRIVATE_CANCELLATION = 4"
| "phase_index PUBLIC_CANCELLATION = 5"
| "phase_index EXPIRED = 6"

text \<open>
  The object \<^verbatim>\<open>immutables.timelocks\<close>: absolute times in seconds.  The deployment script
  also writes the three destination boundaries; the mock objects of the query scripts
  leave them out, and no function reads them.
\<close>

record timelocks =
  srcWithdrawal :: int
  srcPublicWithdrawal :: int
  srcCancellation :: int
  srcPublicCancellation :: int
  dstWithdrawal :: "int option"
  dstPublicWithdrawal :: "int option"
  dstCancellation :: "int option"

text \<open>
  The argument \<^verbatim>\<open>immutables\<close>.  The phase function reads the field \<open>timelocks\<close> only, so
  it accepts every extension of this record (the deployment script's immutables below).
\<close>

record immutables =
  timelocks :: timelocks

text \<open>A value that is a number or a string, as \<^verbatim>\<open>timeRemaining\<close> is.\<close>

datatype js_value = Num int | Str string

text \<open>The field \<^verbatim>\<open>nextPhaseTime\<close>: an ISO text of a millisecond instant, or \<^verbatim>\<open>'N/A'\<close>.\<close>

datatype date_text = ISOString int | NotAvailable

text \<open>The object returned by the unnamed query script (no \<^verbatim>\<open>allowedActions\<close>).\<close>

record phaseInfo =
  phase :: phase
  description :: string
  timeRemaining :: js_value
  nextPhase :: phase
  nextPhaseTime :: date_text

text \<open>The object returned by the two named query scripts.\<close>

record phaseInfoActions = phaseInfo +
  allowedActions :: "string list"

subsection \<open>Phase determination\<close>

text \<open>
  \<^verbatim>\<open>determineEscrowPhase\<close> of \<^verbatim>\<open>query-escrow-events.js\<close> (lines 173-232) and of
  \<^verbatim>\<open>query-escrow-enhanced.js\<close> (lines 97-157); the two bodies build the same object.
\<close>

definition determineEscrowPhase :: "'a immutables_scheme \<Rightarrow> int \<Rightarrow> phaseInfoActions" where
  "determineEscrowPhase immutables currentTime =
    (let tlk = timelocks immutables in
     if currentTime < srcWithdrawal tlk then
       \<lparr> phase = FINALITY,
         description = ''Contract is in finality period - no actions allowed'',
         timeRemaining = Num (srcWithdrawal tlk - currentTime),
         nextPhase = PRIVATE_WITHDRAWAL,
         nextPhaseTime = ISOString (srcWithdrawal tlk * 1000),
         allowedActions = [''None - waiting for finality''] \<rparr>
     else if currentTime < srcPublicWithdrawal tlk then
       \<lparr> phase = PRIVATE_WITHDRAWAL,
         description = ''Private withdrawal period - maker can withdraw with secret'',
         timeRemaining = Num (srcPublicWithdrawal tlk - currentTime),
         nextPhase = PUBLIC_WITHDRAWAL,
         nextPhaseTime = ISOString (srcPublicWithdrawal tlk * 1000),
         allowedActions = [''Maker withdraw with secret'', ''Taker withdraw with secret''] \<rparr>
     else if currentTime < srcCancellation tlk then
       \<lparr> phase = PUBLIC_WITHDRAWAL,
         description = ''Public withdrawal period - anyone can withdraw with secret'',
         timeRemaining = Num (srcCancellation tlk - currentTime),
         nextPhase = PRIVATE_CANCELLATION,
         nextPhaseTime = ISOString (srcCancellation tlk * 1000),
         allowedActions = [''Anyone withdraw with secret''] \<rparr>
     else if currentTime < srcPublicCancellation tlk then
       \<lparr> phase = PRIVATE_CANCELLATION,
         description = ''Private cancellation period - maker can cancel'',
         timeRemaining = Num (srcPublicCancellation tlk - currentTime),
         nextPhase = PUBLIC_CANCELLATION,
         nextPhaseTime = ISOString (srcPublicCancellation tlk * 1000),
         allowedActions = [''Maker cancel'', ''Anyone withdraw with secret''] \<rparr>
     else
       \<lparr> phase = PUBLIC_CANCELLATION,
         description = ''Public cancellation period - anyone can cancel'',
         timeRemaining = Str ''No time limit'',
         nextPhase = EXPIRED,
         nextPhaseTime = NotAvailable,
         allowedActions = [''Anyone cancel'', ''Anyone withdraw with secret''] \<rparr>)"

text \<open>
  \<^verbatim>\<open>determineEscrowPhase\<close> of the unnamed query script (lines 65-128).  Its local
  \<^verbatim>\<open>currentPhase\<close> starts as \<^verbatim>\<open>PHASES.DEPLOYED\<close>, is overwritten in every branch and is
  never returned; \<^verbatim>\<open>deploymentTime\<close> is only printed.
\<close>

definition determineEscrowPhase0 :: "'a immutables_scheme \<Rightarrow> int \<Rightarrow> phaseInfo" where
  "determineEscrowPhase0 immutables currentTime =
    (let tlk = timelocks immutables in
     if currentTime < srcWithdrawal tlk then
       \<lparr> phase = FINALITY,
         description = ''Contract is in finality period - no actions allowed'',
         timeRemaining = Num (srcWithdrawal tlk - currentTime),
         nextPhase = PRIVATE_WITHDRAWAL,
         nextPhaseTime = ISOString (srcWithdrawal tlk * 1000) \<rparr>
     else if currentTime < srcPublicWithdrawal tlk then
       \<lparr> phase = PRIVATE_WITHDRAWAL,
         description = ''Private withdrawal period - maker can withdraw with secret'',
         timeRemaining = Num (srcPublicWithdrawal tlk - currentTime),
         nextPhase = PUBLIC_WITHDRAWAL,
         nextPhaseTime = ISOString (srcPublicWithdrawal tlk * 1000) \<rparr>
     else if currentTime < srcCancellation tlk then
       \<lparr> phase = PUBLIC_WITHDRAWAL,
         description = ''Public withdrawal period - anyone can withdraw with secret'',
         timeRemaining = Num (srcCancellation tlk - currentTime),
         nextPhase = PRIVATE_CANCELLATION,
         nextPhaseTime = ISOString (srcCancellation tlk * 1000) \<rparr>
     else if currentTime < srcPublicCancellation tlk then
       \<lparr> phase = PRIVATE_CANCELLATION,
         description = ''Private cancellation period - maker can cancel'',
         timeRemaining = Num (srcPublicCancellation tlk - currentTime),
         nextPhase = PUBLIC_CANCELLATION,
         nextPhaseTime = ISOString (srcPublicCancellation tlk * 1000) \<rparr>
     else
       \<lparr> phase = PUBLIC_CANCELLATION,
         description = ''Public cancellation period - anyone can cancel'',
         timeRemaining = Str ''No time limit'',
         nextPhase = EXPIRED,
         nextPhaseTime = NotAvailable \<rparr>)"

text \<open>
  The timelocks the deployment script builds (unnamed deployment script, lines 298 and
  307-315) from \<^verbatim>\<open>currentTime = Math.floor(Date.now() / 1000)\<close>.
\<close>

definition escrowTimelocks :: "int \<Rightarrow> timelocks" where
  "escrowTimelocks currentTime =
    \<lparr> srcWithdrawal = currentTime + 60,
      srcPublicWithdrawal = currentTime + 120,
      srcCancellation = currentTime + 300,
      srcPublicCancellation = currentTime + 600,
      dstWithdrawal = Some (currentTime + 60),
      dstPublicWithdrawal = Some (currentTime + 120),
      dstCancellation = Some (currentTime + 300) \<rparr>"

text \<open>
  The mock timelocks of the query scripts (\<^verbatim>\<open>query-escrow-enhanced.js\<close> lines 231-238),
  from \<^verbatim>\<open>Math.floor(Date.now() / 1000)\<close>.
\<close>

definition mockTimelocks :: "int \<Rightarrow> timelocks" where
  "mockTimelocks nowSeconds =
    \<lparr> srcWithdrawal = nowSeconds + 60,
      srcPublicWithdrawal = nowSeconds + 120,
      srcCancellation = nowSeconds + 300,
      srcPublicCancellation = nowSeconds + 600,
      dstWithdrawal = None,
      dstPublicWithdrawal = None,
      dstCancellation = None \<rparr>"

text \<open>The ordering \<open>t0 \<le> t1 \<le> t2 \<le> t3\<close> of the four source boundaries.\<close>

definition ordered_timelocks :: "timelocks \<Rightarrow> bool" where
  "ordered_timelocks tlk \<longleftrightarrow>
     srcWithdrawal tlk \<le> srcPublicWithdrawal tlk \<and>
     srcPublicWithdrawal tlk \<le> srcCancellation tlk \<and>
     srcCancellation tlk \<le> srcPublicCancellation tlk"

subsection \<open>Formatting the time remaining\<close>

text \<open>
  The JavaScript remainder \<^verbatim>\<open>a % b\<close> on integers: the magnitude of the result is that of
  \<open>\<bar>a\<bar> mod \<bar>b\<bar>\<close>, its sign is the sign of the dividend.
\<close>

definition js_rem :: "int \<Rightarrow> int \<Rightarrow> int" where
  "js_rem a b = (if a < 0 then - ((- a) mod \<bar>b\<bar>) else a mod \<bar>b\<bar>)"

text \<open>
  Decimal text of an integer, as a template literal \<^verbatim>\<open>${n}\<close> and \<^verbatim>\<open>n.toString()\<close> render
  an integral number or a BigInt.
\<close>

definition digit_char :: "nat \<Rightarrow> char" where
  "digit_char n = ''0123456789'' ! n"

fun nat_text :: "nat \<Rightarrow> string" where
  "nat_text n = (if n < 10 then [digit_char n] else nat_text (n div 10) @ [digit_char (n mod 10)])"

declare nat_text.simps [simp del]

definition numberToString :: "int \<Rightarrow> string" where
  "numberToString i = (if i < 0 then CHR ''-'' # nat_text (nat (- i)) else nat_text (nat i))"

text \<open>
  The four local constants of \<^verbatim>\<open>formatTimeRemaining\<close> (\<^verbatim>\<open>query-escrow-events.js\<close> lines
  237-240; the other two scripts repeat them): \<^verbatim>\<open>Math.floor\<close> of a quotient by a positive
  constant is \<open>div\<close>.
\<close>

definition days :: "int \<Rightarrow> int" where
  "days seconds = seconds div 86400"

definition hours :: "int \<Rightarrow> int" where
  "hours seconds = js_rem seconds 86400 div 3600"

definition minutes :: "int \<Rightarrow> int" where
  "minutes seconds = js_rem seconds 3600 div 60"

definition secs :: "int \<Rightarrow> int" where
  "secs seconds = js_rem seconds 60"

text \<open>\<^verbatim>\<open>formatTimeRemaining\<close> (\<^verbatim>\<open>query-escrow-events.js\<close> lines 234-251).\<close>

fun formatTimeRemaining :: "js_value \<Rightarrow> string" where
  "formatTimeRemaining (Str seconds) = seconds"
| "formatTimeRemaining (Num seconds) =
    (if days seconds > 0 then
       numberToString (days seconds) @ ''d '' @ numberToString (hours seconds) @ ''h '' @
       numberToString (minutes seconds) @ ''m '' @ numberToString (secs seconds) @ ''s''
     else if hours seconds > 0 then
       numberToString (hours seconds) @ ''h '' @
       numberToString (minutes seconds) @ ''m '' @ numberToString (secs seconds) @ ''s''
     else if minutes seconds > 0 then
       numberToString (minutes seconds) @ ''m '' @ numberToString (secs seconds) @ ''s''
     else
       numberToString (secs seconds) @ ''s'')"

subsection \<open>Choice of the immutables in the enhanced query script\<close>

text \<open>
  \<^verbatim>\<open>main\<close> of \<^verbatim>\<open>query-escrow-enhanced.js\<close> (lines 215-245): the immutables found in the
  latest order file are used as they are; without them the mock timelocks are built.
  The phase is then determined for the block time read from the chain.  \<open>fileImmutables\<close>
  is \<^verbatim>\<open>orderData.escrowDeployment.immutables\<close> when the file and the fields exist.
\<close>

definition chooseImmutables :: "immutables option \<Rightarrow> int \<Rightarrow> immutables" where
  "chooseImmutables fileImmutables nowSeconds =
    (case fileImmutables of
       Some im \<Rightarrow> im
     | None \<Rightarrow> \<lparr> timelocks = mockTimelocks nowSeconds \<rparr>)"

definition mainPhaseInfo :: "immutables option \<Rightarrow> int \<Rightarrow> int \<Rightarrow> phaseInfoActions" where
  "mainPhaseInfo fileImmutables nowSeconds currentTime =
     determineEscrowPhase (chooseImmutables fileImmutables nowSeconds) currentTime"

section \<open>Deployment, funding and verification in the deployment script\<close>

text \<open>
  The unnamed deployment script deploys the escrow contract (its step 2), funds it (step
  3) and verifies it (step 4), writing the progress into the object \<^verbatim>\<open>escrowDeployment\<close>.
  The chain is reached through the provider and the wallet; a call to them either
  returns or throws an error with a message, modelled as a sum with the message on the
  left.
\<close>

subsection \<open>Data\<close>

text \<open>
  \<^verbatim>\<open>escrowImmutables\<close> (lines 299-316): the immutables of the phase engine together with
  the identity and the amounts (BigInt wei, \<^typ>\<open>int\<close>).
\<close>

record escrowImmutables = immutables +
  orderHash :: string
  hashlock :: string
  maker :: string
  taker :: string
  token :: string
  amount :: int
  safetyDeposit :: int

text \<open>
  \<^verbatim>\<open>escrowDeployment\<close> (lines 319-329) with the fields the later steps add; a field that
  is not set yet is \<open>None\<close>.  Its field \<^verbatim>\<open>immutables\<close> is named \<open>deploymentImmutables\<close>.
\<close>

record escrowDeployment =
  contractAddress :: string
  deployer :: string
  rescueDelay :: int
  network :: string
  deploymentStatus :: string
  deploymentType :: string
  deploymentImmutables :: escrowImmutables
  deploymentCost :: string
  gasEstimate :: string
  deploymentTxHash :: "string option"
  deploymentError :: "string option"
  fundingTxHash :: "string option"
  fundingAmount :: "string option"
  fundingStatus :: "string option"
  gasUsed :: "string option"
  fundingError :: "string option"
  verificationStatus :: "string option"
  contractBalance :: "string option"
  deployedRescueDelay :: "string option"
  verificationError :: "string option"

text \<open>
  A transaction handed to \<^verbatim>\<open>deployerWallet.sendTransaction\<close>: destination, value and gas
  limit (its gas price is the result of the fee query, not modelled).
\<close>

record tx_request =
  txTo :: string
  txValue :: int
  txGasLimit :: int

text \<open>
  The receipt that \<^verbatim>\<open>wait()\<close> returns; its fields \<^verbatim>\<open>hash\<close>, \<^verbatim>\<open>status\<close> and \<^verbatim>\<open>gasUsed\<close> carry
  the prefix \<open>receipt\<close> here.
\<close>

record receipt =
  receiptHash :: string
  receiptStatus :: int
  receiptGasUsed :: int

text \<open>
  What one funding attempt meets, in the order of its calls: the fee query
  \<^verbatim>\<open>provider.getFeeData()\<close> throws while the argument of \<^verbatim>\<open>sendTransaction\<close> is being built,
  so nothing is handed to the wallet; \<^verbatim>\<open>sendTransaction\<close> throws; \<^verbatim>\<open>wait()\<close> throws for
  a transaction with the given hash (a timeout, a replaced transaction); the transaction
  is mined with status 0; the transaction is mined with status 1 and the given gas used.
  Each error carries its message.
\<close>

datatype attempt_outcome =
  FeeDataThrew string
| SendThrew string
| WaitThrew string string
| Reverted string string
| Confirmed string int

text \<open>The calls one run of step 3 makes to the provider and the wallet.\<close>

datatype wallet_call = GetFeeData | SendTransaction tx_request

text \<open>The three reads of step 4, in the order the script makes them.\<close>

record chain_reads =
  readRescueDelay :: "string + int"
  readBalance :: "string + int"
  readFactory :: "string + string"

text \<open>The console lines of step 4 that report a check.\<close>

datatype console_line =
  RescueDelayVerified
| RescueDelayMismatch int int
| BalanceVerified
| BalanceInsufficient int int
| BalanceCheckCompleted "string option"
| VerificationComplete string
| VerificationFailed string
| VerificationError string

subsection \<open>The steps\<close>

text \<open>\<^verbatim>\<open>rescueDelay\<close> (line 295).\<close>

definition rescueDelaySeconds :: int where
  "rescueDelaySeconds = 1800"

text \<open>The immutables of lines 299-316, for the values the script computes earlier.\<close>

definition makeEscrowImmutables ::
  "string \<Rightarrow> string \<Rightarrow> string \<Rightarrow> string \<Rightarrow> string \<Rightarrow> int \<Rightarrow> int \<Rightarrow> int \<Rightarrow> escrowImmutables" where
  "makeEscrowImmutables oh hl mk tk tok amt dep currentTime =
    \<lparr> timelocks = escrowTimelocks currentTime,
      orderHash = oh, hashlock = hl, maker = mk, taker = tk, token = tok,
      amount = amt, safetyDeposit = dep \<rparr>"

text \<open>The object of lines 319-329.\<close>

definition pendingDeployment :: "string \<Rightarrow> escrowImmutables \<Rightarrow> escrowDeployment" where
  "pendingDeployment deployerAddress im =
    \<lparr> contractAddress = ''TBD'',
      deployer = deployerAddress,
      rescueDelay = rescueDelaySeconds,
      network = ''Sepolia'',
      deploymentStatus = ''pending'',
      deploymentType = ''direct'',
      deploymentImmutables = im,
      deploymentCost = ''TBD'',
      gasEstimate = ''TBD'',
      deploymentTxHash = None,
      deploymentError = None,
      fundingTxHash = None,
      fundingAmount = None,
      fundingStatus = None,
      gasUsed = None,
      fundingError = None,
      verificationStatus = None,
      contractBalance = None,
      deployedRescueDelay = None,
      verificationError = None \<rparr>"

text \<open>\<^verbatim>\<open>totalFundingAmount\<close> (line 395).\<close>

definition totalFundingAmount :: "escrowImmutables \<Rightarrow> int" where
  "totalFundingAmount im = amount im + safetyDeposit im"

text \<open>The two transactions of step 3 (lines 414-419 and 451-456).\<close>

definition fundingRequest :: "string \<Rightarrow> escrowImmutables \<Rightarrow> tx_request" where
  "fundingRequest address im =
    \<lparr> txTo = address, txValue = totalFundingAmount im, txGasLimit = 1000000 \<rparr>"

definition alternativeFundingRequest :: "string \<Rightarrow> escrowImmutables \<Rightarrow> tx_request" where
  "alternativeFundingRequest address im =
    \<lparr> txTo = address, txValue = totalFundingAmount im, txGasLimit = 2000000 \<rparr>"

text \<open>
  What the \<^verbatim>\<open>try\<close> block of an attempt observes.  The script runs on version 6 of the
  ethers library (\<^verbatim>\<open>ethers.JsonRpcProvider\<close>, \<^verbatim>\<open>waitForDeployment\<close>, BigInt amounts), whose
  \<^verbatim>\<open>wait()\<close> does not return a receipt with status 0 but throws a call exception with the
  message given here; a receipt that is returned has status 1.
\<close>

definition sendAndWait :: "attempt_outcome \<Rightarrow> string + receipt" where
  "sendAndWait outcome =
    (case outcome of
       FeeDataThrew msg \<Rightarrow> Inl msg
     | SendThrew msg \<Rightarrow> Inl msg
     | WaitThrew h msg \<Rightarrow> Inl msg
     | Reverted h msg \<Rightarrow> Inl msg
     | Confirmed h used \<Rightarrow>
         Inr \<lparr> receiptHash = h, receiptStatus = 1, receiptGasUsed = used \<rparr>)"

text \<open>The calls of one attempt: the fee query, then the send unless the query threw.\<close>

definition attemptCalls :: "attempt_outcome \<Rightarrow> tx_request \<Rightarrow> wallet_call list" where
  "attemptCalls outcome request =
    (case outcome of
       FeeDataThrew msg \<Rightarrow> [GetFeeData]
     | _ \<Rightarrow> [GetFeeData, SendTransaction request])"

text \<open>The transactions among the calls, in order.\<close>

fun sentRequests :: "wallet_call list \<Rightarrow> tx_request list" where
  "sentRequests [] = []"
| "sentRequests (GetFeeData # calls) = sentRequests calls"
| "sentRequests (SendTransaction request # calls) = request # sentRequests calls"

text \<open>
  Step 3 (lines 392-478) once the deployer's balance has been read.  \<open>firstOutcome\<close> is
  what the attempt of lines 412-442 meets, \<open>retryOutcome\<close> what the attempt of lines
  450-471 meets if it is made.  The result is the updated \<^verbatim>\<open>escrowDeployment\<close> and the
  calls made, in order.
\<close>

definition fundEscrow ::
  "attempt_outcome \<Rightarrow> attempt_outcome \<Rightarrow> escrowImmutables \<Rightarrow> int \<Rightarrow> escrowDeployment
     \<Rightarrow> escrowDeployment \<times> wallet_call list" where
  "fundEscrow firstOutcome retryOutcome im deployerBalance ed =
    (if deployerBalance < totalFundingAmount im then (ed, [])
     else
       (case sendAndWait firstOutcome of
          Inr fundingReceipt \<Rightarrow>
            (if receiptStatus fundingReceipt = 1 then
               ed\<lparr> fundingTxHash := Some (receiptHash fundingReceipt),
                   fundingAmount := Some (numberToString (totalFundingAmount im)),
                   fundingStatus := Some ''completed'',
                   gasUsed := Some (numberToString (receiptGasUsed fundingReceipt)) \<rparr>
             else
               ed\<lparr> fundingStatus := Some ''failed'',
                   fundingError := Some ''Transaction reverted'' \<rparr>,
             attemptCalls firstOutcome (fundingRequest (contractAddress ed) im))
        | Inl fundingErrorMessage \<Rightarrow>
            (let ed1 = ed\<lparr> fundingStatus := Some ''failed'',
                             fundingError := Some fundingErrorMessage \<rparr> in
             (case sendAndWait retryOutcome of
                Inr alternativeReceipt \<Rightarrow>
                  (if receiptStatus alternativeReceipt = 1 then
                     ed1\<lparr> fundingTxHash := Some (receiptHash alternativeReceipt),
                          fundingAmount := Some (numberToString (totalFundingAmount im)),
                          fundingStatus := Some ''completed'',
                          gasUsed := Some (numberToString (receiptGasUsed alternativeReceipt)) \<rparr>
                   else
                     ed1\<lparr> fundingStatus := Some ''failed'',
                          fundingError := Some ''Both funding attempts failed'' \<rparr>)
              | Inl altErrorMessage \<Rightarrow>
                  ed1\<lparr> fundingStatus := Some ''failed'',
                       fundingError := Some (''Both attempts failed: '' @ fundingErrorMessage @
                                             '', '' @ altErrorMessage) \<rparr>,
              attemptCalls firstOutcome (fundingRequest (contractAddress ed) im) @
              attemptCalls retryOutcome (alternativeFundingRequest (contractAddress ed) im)))))"

text \<open>
  Step 4 (lines 480-536).  An error of the first two reads is caught by the outer
  handler, an error of the third by the inner one; both mark the verification failed.
\<close>

definition verifyDeployment ::
  "chain_reads \<Rightarrow> escrowImmutables \<Rightarrow> escrowDeployment
     \<Rightarrow> escrowDeployment \<times> console_line list" where
  "verifyDeployment reads im ed =
    (case readRescueDelay reads of
       Inl msg \<Rightarrow>
         (ed\<lparr> verificationStatus := Some ''failed'', verificationError := Some msg \<rparr>,
          [VerificationError msg])
     | Inr delay \<Rightarrow>
         (let log1 =
            [if numberToString delay = numberToString rescueDelaySeconds
             then RescueDelayVerified else RescueDelayMismatch rescueDelaySeconds delay] in
          (case readBalance reads of
             Inl msg \<Rightarrow>
               (ed\<lparr> verificationStatus := Some ''failed'', verificationError := Some msg \<rparr>,
                log1 @ [VerificationError msg])
           | Inr balance \<Rightarrow>
               (let log2 = log1 @
                  [if fundingStatus ed = Some ''completed'' then
                     (if balance \<ge> totalFundingAmount im then BalanceVerified
                      else BalanceInsufficient (totalFundingAmount im) balance)
                   else BalanceCheckCompleted (fundingStatus ed)] in
                (case readFactory reads of
                   Inr factory \<Rightarrow>
                     (ed\<lparr> verificationStatus := Some ''verified'',
                          contractBalance := Some (numberToString balance),
                          deployedRescueDelay := Some (numberToString delay) \<rparr>,
                      log2 @ [VerificationComplete factory])
                 | Inl msg \<Rightarrow>
                     (ed\<lparr> verificationStatus := Some ''failed'',
                          verificationError := Some msg \<rparr>,
                      log2 @ [VerificationFailed msg]))))))"

text \<open>
  Steps 2 to 4 together (lines 357-560).  \<open>deployed\<close> is the outcome of the deployment:
  the contract address and the hash of the deployment transaction; the two outcomes are
  those of the funding attempts.  An error of the
  deployment or of the read of the deployer's balance reaches the handler of line 549,
  which marks the deployment failed and returns.
\<close>

definition deployFundVerify ::
  "(string + string \<times> string) \<Rightarrow> (string + int) \<Rightarrow> attempt_outcome \<Rightarrow> attempt_outcome
     \<Rightarrow> chain_reads \<Rightarrow> escrowImmutables \<Rightarrow> escrowDeployment
     \<Rightarrow> escrowDeployment \<times> wallet_call list \<times> console_line list" where
  "deployFundVerify deployed deployerBalance firstOutcome retryOutcome reads im ed =
    (case deployed of
       Inl msg \<Rightarrow> (ed\<lparr> deploymentStatus := ''failed'', deploymentError := Some msg \<rparr>, [], [])
     | Inr (address, txHash) \<Rightarrow>
         (let ed2 = ed\<lparr> contractAddress := address,
                          deploymentTxHash := Some txHash,
                          deploymentStatus := ''deployed'' \<rparr> in
          (case deployerBalance of
             Inl msg \<Rightarrow>
               (ed2\<lparr> deploymentStatus := ''failed'', deploymentError := Some msg \<rparr>, [], [])
           | Inr balance \<Rightarrow>
               (let (ed3, calls) = fundEscrow firstOutcome retryOutcome im balance ed2;
                    (ed4, lines) = verifyDeployment reads im ed3
                in (ed4, calls, lines)))))"

section \<open>Event query of the events script\<close>

text \<open>
  \<^verbatim>\<open>queryContractEvents\<close> of \<^verbatim>\<open>query-escrow-events.js\<close> (lines 68-137) asks the provider
  for the current block number, for the events of the three kinds in the last 100
  blocks and, for every event, for the block it lies in.
\<close>

subsection \<open>Data\<close>

datatype event_kind = Withdrawal | EscrowCancelled | FundsRescued

text \<open>
  An event log as the provider returns it; its fields \<^verbatim>\<open>blockNumber\<close>,
  \<^verbatim>\<open>transactionHash\<close> and \<^verbatim>\<open>args.secret\<close>, \<^verbatim>\<open>args.token\<close>, \<^verbatim>\<open>args.amount\<close> carry the prefix
  \<open>event\<close> here (an argument the event does not have is \<open>None\<close>).
\<close>

record raw_event =
  eventBlockNumber :: int
  eventTransactionHash :: string
  eventSecret :: "string option"
  eventToken :: "string option"
  eventAmount :: "int option"

text \<open>The provider: every call returns or throws.\<close>

record provider =
  getBlockNumber :: "string + int"
  queryFilter :: "event_kind \<Rightarrow> int \<Rightarrow> int \<Rightarrow> string + raw_event list"
  getBlock :: "int \<Rightarrow> string + int"

text \<open>
  The entries of the three result lists.  A cancellation entry has exactly the common
  fields; the rescue's \<^verbatim>\<open>token\<close> and \<^verbatim>\<open>amount\<close> are named \<open>rescuedToken\<close> and
  \<open>rescuedAmount\<close>.
\<close>

record cancellation =
  blockNumber :: int
  timestamp :: int
  transactionHash :: string

record withdrawal = cancellation +
  secret :: "string option"

record rescue = cancellation +
  rescuedToken :: "string option"
  rescuedAmount :: "int option"

record contract_events =
  withdrawals :: "withdrawal list"
  cancellations :: "cancellation list"
  rescues :: "rescue list"
  totalEvents :: nat

subsection \<open>The query\<close>

text \<open>The three loops of lines 90-124; \<open>getBlock p n\<close> yields the block's timestamp.\<close>

fun processWithdrawals :: "provider \<Rightarrow> raw_event list \<Rightarrow> string + withdrawal list" where
  "processWithdrawals p [] = Inr []"
| "processWithdrawals p (event # events) =
    (case getBlock p (eventBlockNumber event) of
       Inl msg \<Rightarrow> Inl msg
     | Inr ts \<Rightarrow>
         (case processWithdrawals p events of
            Inl msg \<Rightarrow> Inl msg
          | Inr entries \<Rightarrow>
              Inr (\<lparr> blockNumber = eventBlockNumber event, timestamp = ts,
                      transactionHash = eventTransactionHash event,
                      secret = eventSecret event \<rparr> # entries)))"

fun processCancellations :: "provider \<Rightarrow> raw_event list \<Rightarrow> string + cancellation list" where
  "processCancellations p [] = Inr []"
| "processCancellations p (event # events) =
    (case getBlock p (eventBlockNumber event) of
       Inl msg \<Rightarrow> Inl msg
     | Inr ts \<Rightarrow>
         (case processCancellations p events of
            Inl msg \<Rightarrow> Inl msg
          | Inr entries \<Rightarrow>
              Inr (\<lparr> blockNumber = eventBlockNumber event, timestamp = ts,
                      transactionHash = eventTransactionHash event \<rparr> # entries)))"

fun processRescues :: "provider \<Rightarrow> raw_event list \<Rightarrow> string + rescue list" where
  "processRescues p [] = Inr []"
| "processRescues p (event # events) =
    (case getBlock p (eventBlockNumber event) of
       Inl msg \<Rightarrow> Inl msg
     | Inr ts \<Rightarrow>
         (case processRescues p events of
            Inl msg \<Rightarrow> Inl msg
          | Inr entries \<Rightarrow>
              Inr (\<lparr> blockNumber = eventBlockNumber event, timestamp = ts,
                      transactionHash = eventTransactionHash event,
                      rescuedToken = eventToken event,
                      rescuedAmount = eventAmount event \<rparr> # entries)))"

text \<open>
  \<^verbatim>\<open>queryContractEvents\<close>: the handler of line 133 prints the error and throws it again,
  so the first error of a provider call is the result.
\<close>

definition queryContractEvents :: "provider \<Rightarrow> string + contract_events" where
  "queryContractEvents p =
    (case getBlockNumber p of
       Inl msg \<Rightarrow> Inl msg
     | Inr currentBlock \<Rightarrow>
         (let fromBlock = max 0 (currentBlock - 100) in
          (case queryFilter p Withdrawal fromBlock currentBlock of
             Inl msg \<Rightarrow> Inl msg
           | Inr withdrawalEvents \<Rightarrow>
          (case queryFilter p EscrowCancelled fromBlock currentBlock of
             Inl msg \<Rightarrow> Inl msg
           | Inr cancellationEvents \<Rightarrow>
          (case queryFilter p FundsRescued fromBlock currentBlock of
             Inl msg \<Rightarrow> Inl msg
           | Inr rescueEvents \<Rightarrow>
          (case processWithdrawals p withdrawalEvents of
             Inl msg \<Rightarrow> Inl msg
           | Inr ws \<Rightarrow>
          (case processCancellations p cancellationEvents of
             Inl msg \<Rightarrow> Inl msg
           | Inr cs \<Rightarrow>
          (case processRescues p rescueEvents of
             Inl msg \<Rightarrow> Inl msg
           | Inr rs \<Rightarrow>
               Inr \<lparr> withdrawals = ws, cancellations = cs, rescues = rs,
                     totalEvents = length withdrawalEvents + length cancellationEvents +
                                   length rescueEvents \<rparr>))))))))"

section \<open>Properties of the phase engine\<close>

subsection \<open>Auxiliary facts\<close>

lemma phase_determineEscrowPhase:
  "phase (determineEscrowPhase im now) =
    (if now < srcWithdrawal (timelocks im) then FINALITY
     else if now < srcPublicWithdrawal (timelocks im) then PRIVATE_WITHDRAWAL
     else if now < srcCancellation (timelocks im) then PUBLIC_WITHDRAWAL
     else if now < srcPublicCancellation (timelocks im) then PRIVATE_CANCELLATION
     else PUBLIC_CANCELLATION)"
  by (simp add: determineEscrowPhase_def Let_def)

lemma phase_determineEscrowPhase0:
  "phase (determineEscrowPhase0 im now) =
    (if now < srcWithdrawal (timelocks im) then FINALITY
     else if now < srcPublicWithdrawal (timelocks im) then PRIVATE_WITHDRAWAL
     else if now < srcCancellation (timelocks im) then PUBLIC_WITHDRAWAL
     else if now < srcPublicCancellation (timelocks im) then PRIVATE_CANCELLATION
     else PUBLIC_CANCELLATION)"
  by (simp add: determineEscrowPhase0_def Let_def)

lemma ordered_escrowTimelocks: "ordered_timelocks (escrowTimelocks t)"
  by (simp add: ordered_timelocks_def escrowTimelocks_def)

lemma ordered_mockTimelocks: "ordered_timelocks (mockTimelocks t)"
  by (simp add: ordered_timelocks_def mockTimelocks_def)

subsection \<open>Time windows\<close>

text \<open>
  Claim C3.  For timelocks with \<open>t0 \<le> t1 \<le> t2 \<le> t3\<close> the phase is FINALITY exactly
  before \<open>t0\<close>, PRIVATE_WITHDRAWAL exactly in \<open>[t0, t1)\<close>, PUBLIC_WITHDRAWAL exactly in
  \<open>[t1, t2)\<close>, PRIVATE_CANCELLATION exactly in \<open>[t2, t3)\<close> and PUBLIC_CANCELLATION exactly
  from \<open>t3\<close> on.  For the timelocks the deployment script builds at epoch 1000 (offsets
  60, 120, 300, 600) the phase at time 1000 is FINALITY with 60 seconds remaining, at
  1060 it is PRIVATE_WITHDRAWAL with 60 seconds remaining, at 1700 PUBLIC_CANCELLATION.
\<close>

theorem determineEscrowPhase_windows:
  fixes im :: "'a immutables_scheme"
  assumes "ordered_timelocks (timelocks im)"
  shows
    "(phase (determineEscrowPhase im now) = FINALITY
        \<longleftrightarrow> now < srcWithdrawal (timelocks im)) \<and>
     (phase (determineEscrowPhase im now) = PRIVATE_WITHDRAWAL
        \<longleftrightarrow> srcWithdrawal (timelocks im) \<le> now \<and> now < srcPublicWithdrawal (timelocks im)) \<and>
     (phase (determineEscrowPhase im now) = PUBLIC_WITHDRAWAL
        \<longleftrightarrow> srcPublicWithdrawal (timelocks im) \<le> now \<and> now < srcCancellation (timelocks im)) \<and>
     (phase (determineEscrowPhase im now) = PRIVATE_CANCELLATION
        \<longleftrightarrow> srcCancellation (timelocks im) \<le> now \<and> now < srcPublicCancellation (timelocks im)) \<and>
     (phase (determineEscrowPhase im now) = PUBLIC_CANCELLATION
        \<longleftrightarrow> srcPublicCancellation (timelocks im) \<le> now) \<and>
     phase (determineEscrowPhase \<lparr>timelocks = escrowTimelocks 1000\<rparr> 1000) = FINALITY \<and>
     timeRemaining (determineEscrowPhase \<lparr>timelocks = escrowTimelocks 1000\<rparr> 1000) = Num 60 \<and>
     phase (determineEscrowPhase \<lparr>timelocks = escrowTimelocks 1000\<rparr> 1060) = PRIVATE_WITHDRAWAL \<and>
     timeRemaining (determineEscrowPhase \<lparr>timelocks = escrowTimelocks 1000\<rparr> 1060) = Num 60 \<and>
     phase (determineEscrowPhase \<lparr>timelocks = escrowTimelocks 1000\<rparr> 1700) = PUBLIC_CANCELLATION"
proof -
  have scenario:
    "phase (determineEscrowPhase \<lparr>timelocks = escrowTimelocks 1000\<rparr> 1000) = FINALITY \<and>
     timeRemaining (determineEscrowPhase \<lparr>timelocks = escrowTimelocks 1000\<rparr> 1000) = Num 60 \<and>
     phase (determineEscrowPhase \<lparr>timelocks = escrowTimelocks 1000\<rparr> 1060) = PRIVATE_WITHDRAWAL \<and>
     timeRemaining (determineEscrowPhase \<lparr>timelocks = escrowTimelocks 1000\<rparr> 1060) = Num 60 \<and>
     phase (determineEscrowPhase \<lparr>timelocks = escrowTimelocks 1000\<rparr> 1700) = PUBLIC_CANCELLATION"
    by (simp add: determineEscrowPhase_def escrowTimelocks_def Let_def)
  from assms have windows:
    "(phase (determineEscrowPhase im now) = FINALITY
        \<longleftrightarrow> now < srcWithdrawal (timelocks im)) \<and>
     (phase (determineEscrowPhase im now) = PRIVATE_WITHDRAWAL
        \<longleftrightarrow> srcWithdrawal (timelocks im) \<le> now \<and> now < srcPublicWithdrawal (timelocks im)) \<and>
     (phase (determineEscrowPhase im now) = PUBLIC_WITHDRAWAL
        \<longleftrightarrow> srcPublicWithdrawal (timelocks im) \<le> now \<and> now < srcCancellation (timelocks im)) \<and>
     (phase (determineEscrowPhase im now) = PRIVATE_CANCELLATION
        \<longleftrightarrow> srcCancellation (timelocks im) \<le> now \<and> now < srcPublicCancellation (timelocks im)) \<and>
     (phase (determineEscrowPhase im now) = PUBLIC_CANCELLATION
        \<longleftrightarrow> srcPublicCancellation (timelocks im) \<le> now)"
    by (auto simp add: phase_determineEscrowPhase ordered_timelocks_def)
  from windows scenario show ?thesis by blast
qed

theorem determineEscrowPhase_windows_witness:
  "ordered_timelocks (escrowTimelocks 1000) \<and>
   srcPublicWithdrawal (escrowTimelocks 1000) \<le> 1150 \<and>
   1150 < srcCancellation (escrowTimelocks 1000) \<and>
   phase (determineEscrowPhase \<lparr>timelocks = escrowTimelocks 1000\<rparr> 1150) = PUBLIC_WITHDRAWAL"
proof -
  have ord: "ordered_timelocks (timelocks \<lparr>timelocks = escrowTimelocks 1000\<rparr>)"
    by (simp add: ordered_escrowTimelocks)
  have "srcPublicWithdrawal (escrowTimelocks 1000) \<le> 1150 \<and>
        1150 < srcCancellation (escrowTimelocks 1000)"
    by (simp add: escrowTimelocks_def)
  with determineEscrowPhase_windows [OF ord, of 1150] ord show ?thesis
    by simp
qed

subsection \<open>Monotonicity\<close>

text \<open>
  Claim C5.  For timelocks with \<open>t0 \<le> t1 \<le> t2 \<le> t3\<close> and times \<open>now1 \<le> now2\<close> the phase
  at \<open>now2\<close> is not earlier than the phase at \<open>now1\<close> in the order FINALITY,
  PRIVATE_WITHDRAWAL, PUBLIC_WITHDRAWAL, PRIVATE_CANCELLATION, PUBLIC_CANCELLATION.
\<close>

theorem determineEscrowPhase_monotone:
  fixes im :: "'a immutables_scheme"
  assumes "ordered_timelocks (timelocks im)" and "now1 \<le> now2"
  shows "phase_index (phase (determineEscrowPhase im now1))
           \<le> phase_index (phase (determineEscrowPhase im now2))"
  using assms by (simp add: phase_determineEscrowPhase ordered_timelocks_def)

theorem determineEscrowPhase_monotone_witness:
  "ordered_timelocks (escrowTimelocks 1000) \<and> (1100::int) \<le> 1400 \<and>
   phase (determineEscrowPhase \<lparr>timelocks = escrowTimelocks 1000\<rparr> 1100) = PRIVATE_WITHDRAWAL \<and>
   phase (determineEscrowPhase \<lparr>timelocks = escrowTimelocks 1000\<rparr> 1400) = PRIVATE_CANCELLATION \<and>
   phase_index (phase (determineEscrowPhase \<lparr>timelocks = escrowTimelocks 1000\<rparr> 1100))
     \<le> phase_index (phase (determineEscrowPhase \<lparr>timelocks = escrowTimelocks 1000\<rparr> 1400))"
proof -
  have ord: "ordered_timelocks (timelocks \<lparr>timelocks = escrowTimelocks 1000\<rparr>)"
    by (simp add: ordered_escrowTimelocks)
  have le: "(1100::int) \<le> 1400" by simp
  have phases:
    "phase (determineEscrowPhase \<lparr>timelocks = escrowTimelocks 1000\<rparr> 1100) = PRIVATE_WITHDRAWAL \<and>
     phase (determineEscrowPhase \<lparr>timelocks = escrowTimelocks 1000\<rparr> 1400) = PRIVATE_CANCELLATION"
    by (simp add: phase_determineEscrowPhase escrowTimelocks_def)
  from determineEscrowPhase_monotone [OF ord le] ord phases show ?thesis
    by simp
qed

subsection \<open>Allowed actions\<close>

text \<open>
  Claim C1, amended.  For all timelocks and every current time the list \<^verbatim>\<open>allowedActions\<close>
  is the one of the computed phase: PRIVATE_WITHDRAWAL has the maker's and the taker's
  withdrawal with the secret, PUBLIC_WITHDRAWAL anyone's withdrawal with the secret,
  PRIVATE_CANCELLATION the maker's cancellation and anyone's withdrawal with the secret,
  PUBLIC_CANCELLATION anyone's cancellation and anyone's withdrawal with the secret.
  In FINALITY the list is not empty: it holds the single placeholder entry
  \<^verbatim>\<open>'None - waiting for finality'\<close>, which names no action.
\<close>

theorem allowedActions_by_phase:
  fixes im :: "'a immutables_scheme"
  shows
  "(phase (determineEscrowPhase im now) = FINALITY \<longleftrightarrow>
      allowedActions (determineEscrowPhase im now) = [''None - waiting for finality'']) \<and>
   (phase (determineEscrowPhase im now) = PRIVATE_WITHDRAWAL \<longleftrightarrow>
      allowedActions (determineEscrowPhase im now) =
        [''Maker withdraw with secret'', ''Taker withdraw with secret'']) \<and>
   (phase (determineEscrowPhase im now) = PUBLIC_WITHDRAWAL \<longleftrightarrow>
      allowedActions (determineEscrowPhase im now) = [''Anyone withdraw with secret'']) \<and>
   (phase (determineEscrowPhase im now) = PRIVATE_CANCELLATION \<longleftrightarrow>
      allowedActions (determineEscrowPhase im now) =
        [''Maker cancel'', ''Anyone withdraw with secret'']) \<and>
   (phase (determineEscrowPhase im now) = PUBLIC_CANCELLATION \<longleftrightarrow>
      allowedActions (determineEscrowPhase im now) =
        [''Anyone cancel'', ''Anyone withdraw with secret''])"
  by (simp add: determineEscrowPhase_def Let_def)

text \<open>
  The claim as stated fails in FINALITY: at epoch 1000 and time 1000 the phase is
  FINALITY and the returned list has one entry, it is not the empty set of actions.
\<close>

theorem allowedActions_finality_counterexample:
  "phase (determineEscrowPhase \<lparr>timelocks = escrowTimelocks 1000\<rparr> 1000) = FINALITY \<and>
   allowedActions (determineEscrowPhase \<lparr>timelocks = escrowTimelocks 1000\<rparr> 1000)
     = [''None - waiting for finality''] \<and>
   allowedActions (determineEscrowPhase \<lparr>timelocks = escrowTimelocks 1000\<rparr> 1000) \<noteq> []"
  by (simp add: determineEscrowPhase_def escrowTimelocks_def Let_def)

subsection \<open>Boundaries\<close>

text \<open>
  Claim C4, amended.  For timelocks with \<open>t0 \<le> t1 \<le> t2 \<le> t3\<close>, in both versions of the
  function: a current time equal to a boundary never yields the phase that boundary
  ends; it yields the phase that boundary starts whenever the next boundary is strictly
  later (at \<open>t1 < t2\<close> the time \<open>t1\<close> yields PUBLIC_WITHDRAWAL, not PRIVATE_WITHDRAWAL), and
  at \<open>t3\<close> always PUBLIC_CANCELLATION.  Boundaries are absolute times; the deployment
  script stores them as epoch plus offset.
\<close>

theorem boundary_phase:
  fixes im :: "'a immutables_scheme"
  assumes "ordered_timelocks (timelocks im)"
  shows
  "(srcWithdrawal (timelocks im) < srcPublicWithdrawal (timelocks im) \<longrightarrow>
      phase (determineEscrowPhase im (srcWithdrawal (timelocks im))) = PRIVATE_WITHDRAWAL \<and>
      phase (determineEscrowPhase0 im (srcWithdrawal (timelocks im))) = PRIVATE_WITHDRAWAL) \<and>
   (srcPublicWithdrawal (timelocks im) < srcCancellation (timelocks im) \<longrightarrow>
      phase (determineEscrowPhase im (srcPublicWithdrawal (timelocks im))) = PUBLIC_WITHDRAWAL \<and>
      phase (determineEscrowPhase0 im (srcPublicWithdrawal (timelocks im))) = PUBLIC_WITHDRAWAL) \<and>
   (srcCancellation (timelocks im) < srcPublicCancellation (timelocks im) \<longrightarrow>
      phase (determineEscrowPhase im (srcCancellation (timelocks im))) = PRIVATE_CANCELLATION \<and>
      phase (determineEscrowPhase0 im (srcCancellation (timelocks im))) = PRIVATE_CANCELLATION) \<and>
   phase (determineEscrowPhase im (srcPublicCancellation (timelocks im))) = PUBLIC_CANCELLATION \<and>
   phase (determineEscrowPhase0 im (srcPublicCancellation (timelocks im))) = PUBLIC_CANCELLATION \<and>
   phase (determineEscrowPhase im (srcWithdrawal (timelocks im))) \<noteq> FINALITY \<and>
   phase (determineEscrowPhase im (srcPublicWithdrawal (timelocks im))) \<noteq> PRIVATE_WITHDRAWAL \<and>
   phase (determineEscrowPhase im (srcCancellation (timelocks im))) \<noteq> PUBLIC_WITHDRAWAL \<and>
   phase (determineEscrowPhase im (srcPublicCancellation (timelocks im))) \<noteq> PRIVATE_CANCELLATION \<and>
   phase (determineEscrowPhase0 im (srcWithdrawal (timelocks im))) \<noteq> FINALITY \<and>
   phase (determineEscrowPhase0 im (srcPublicWithdrawal (timelocks im))) \<noteq> PRIVATE_WITHDRAWAL \<and>
   phase (determineEscrowPhase0 im (srcCancellation (timelocks im))) \<noteq> PUBLIC_WITHDRAWAL \<and>
   phase (determineEscrowPhase0 im (srcPublicCancellation (timelocks im))) \<noteq> PRIVATE_CANCELLATION"
  using assms
  by (simp add: phase_determineEscrowPhase phase_determineEscrowPhase0 ordered_timelocks_def)

theorem boundary_phase_witness:
  "ordered_timelocks (escrowTimelocks 1000) \<and>
   srcWithdrawal (escrowTimelocks 1000) < srcPublicWithdrawal (escrowTimelocks 1000) \<and>
   srcPublicWithdrawal (escrowTimelocks 1000) < srcCancellation (escrowTimelocks 1000) \<and>
   srcCancellation (escrowTimelocks 1000) < srcPublicCancellation (escrowTimelocks 1000) \<and>
   phase (determineEscrowPhase \<lparr>timelocks = escrowTimelocks 1000\<rparr> 1060) = PRIVATE_WITHDRAWAL \<and>
   phase (determineEscrowPhase \<lparr>timelocks = escrowTimelocks 1000\<rparr> 1120) = PUBLIC_WITHDRAWAL \<and>
   phase (determineEscrowPhase \<lparr>timelocks = escrowTimelocks 1000\<rparr> 1300) = PRIVATE_CANCELLATION \<and>
   phase (determineEscrowPhase \<lparr>timelocks = escrowTimelocks 1000\<rparr> 1600) = PUBLIC_CANCELLATION"
proof -
  have ord: "ordered_timelocks (timelocks \<lparr>timelocks = escrowTimelocks 1000\<rparr>)"
    by (simp add: ordered_escrowTimelocks)
  have vals: "srcWithdrawal (escrowTimelocks 1000) = 1060 \<and>
      srcPublicWithdrawal (escrowTimelocks 1000) = 1120 \<and>
      srcCancellation (escrowTimelocks 1000) = 1300 \<and>
      srcPublicCancellation (escrowTimelocks 1000) = 1600"
    by (simp add: escrowTimelocks_def)
  from boundary_phase [OF ord] ord vals show ?thesis
    by simp
qed

text \<open>
  The claim as stated fails when two boundaries coincide: with \<open>t1 = t2 = 120\<close> the
  ordering holds, and the time 120 yields PRIVATE_CANCELLATION, not PUBLIC_WITHDRAWAL.
\<close>

theorem boundary_phase_counterexample:
  "ordered_timelocks
     \<lparr>srcWithdrawal = 60, srcPublicWithdrawal = 120, srcCancellation = 120,
      srcPublicCancellation = 600, dstWithdrawal = None, dstPublicWithdrawal = None,
      dstCancellation = None\<rparr> \<and>
   phase (determineEscrowPhase
     \<lparr>timelocks = \<lparr>srcWithdrawal = 60, srcPublicWithdrawal = 120, srcCancellation = 120,
      srcPublicCancellation = 600, dstWithdrawal = None, dstPublicWithdrawal = None,
      dstCancellation = None\<rparr>\<rparr> 120) = PRIVATE_CANCELLATION \<and>
   phase (determineEscrowPhase
     \<lparr>timelocks = \<lparr>srcWithdrawal = 60, srcPublicWithdrawal = 120, srcCancellation = 120,
      srcPublicCancellation = 600, dstWithdrawal = None, dstPublicWithdrawal = None,
      dstCancellation = None\<rparr>\<rparr> 120) \<noteq> PUBLIC_WITHDRAWAL"
  by (simp add: phase_determineEscrowPhase ordered_timelocks_def)

subsection \<open>The terminal phase\<close>

text \<open>
  Claim C6, amended.  For all timelocks in which no boundary is later than \<open>t3\<close> (every
  ordered schedule is one) and every current time at or past \<open>t3\<close> the phase is
  PUBLIC_CANCELLATION and \<^verbatim>\<open>timeRemaining\<close> is the text \<^verbatim>\<open>'No time limit'\<close>; in general the
  phase is PUBLIC_CANCELLATION exactly when the current time is at or past all four
  boundaries.  For all inputs the returned phase is neither EXPIRED nor DEPLOYED, and
  EXPIRED is the next phase exactly when the phase is PUBLIC_CANCELLATION.
\<close>

theorem terminal_phase:
  fixes im :: "'a immutables_scheme"
  shows
  "(srcWithdrawal (timelocks im) \<le> srcPublicCancellation (timelocks im) \<and>
    srcPublicWithdrawal (timelocks im) \<le> srcPublicCancellation (timelocks im) \<and>
    srcCancellation (timelocks im) \<le> srcPublicCancellation (timelocks im) \<and>
    srcPublicCancellation (timelocks im) \<le> now \<longrightarrow>
      phase (determineEscrowPhase im now) = PUBLIC_CANCELLATION \<and>
      timeRemaining (determineEscrowPhase im now) = Str ''No time limit'') \<and>
   (phase (determineEscrowPhase im now) = PUBLIC_CANCELLATION \<longleftrightarrow>
      srcWithdrawal (timelocks im) \<le> now \<and> srcPublicWithdrawal (timelocks im) \<le> now \<and>
      srcCancellation (timelocks im) \<le> now \<and> srcPublicCancellation (timelocks im) \<le> now) \<and>
   (timeRemaining (determineEscrowPhase im now) = Str ''No time limit'' \<longleftrightarrow>
      phase (determineEscrowPhase im now) = PUBLIC_CANCELLATION) \<and>
   phase (determineEscrowPhase im now) \<noteq> EXPIRED \<and>
   phase (determineEscrowPhase im now) \<noteq> DEPLOYED \<and>
   (nextPhase (determineEscrowPhase im now) = EXPIRED \<longleftrightarrow>
      phase (determineEscrowPhase im now) = PUBLIC_CANCELLATION) \<and>
   nextPhase (determineEscrowPhase im now) \<noteq> DEPLOYED"
proof -
  have branches:
    "(phase (determineEscrowPhase im now) = PUBLIC_CANCELLATION \<longleftrightarrow>
        srcWithdrawal (timelocks im) \<le> now \<and> srcPublicWithdrawal (timelocks im) \<le> now \<and>
        srcCancellation (timelocks im) \<le> now \<and> srcPublicCancellation (timelocks im) \<le> now) \<and>
     (timeRemaining (determineEscrowPhase im now) = Str ''No time limit'' \<longleftrightarrow>
        phase (determineEscrowPhase im now) = PUBLIC_CANCELLATION) \<and>
     phase (determineEscrowPhase im now) \<noteq> EXPIRED \<and>
     phase (determineEscrowPhase im now) \<noteq> DEPLOYED \<and>
     (nextPhase (determineEscrowPhase im now) = EXPIRED \<longleftrightarrow>
        phase (determineEscrowPhase im now) = PUBLIC_CANCELLATION) \<and>
     nextPhase (determineEscrowPhase im now) \<noteq> DEPLOYED"
    by (auto simp add: determineEscrowPhase_def Let_def)
  then show ?thesis
    by auto
qed

text \<open>The witness is a schedule that is not ordered, yet has \<open>t3\<close> as its last boundary.\<close>

theorem terminal_phase_witness:
  "phase (determineEscrowPhase
     \<lparr>timelocks = \<lparr>srcWithdrawal = 120, srcPublicWithdrawal = 60, srcCancellation = 300,
      srcPublicCancellation = 600, dstWithdrawal = None, dstPublicWithdrawal = None,
      dstCancellation = None\<rparr>\<rparr> 700) = PUBLIC_CANCELLATION \<and>
   timeRemaining (determineEscrowPhase
     \<lparr>timelocks = \<lparr>srcWithdrawal = 120, srcPublicWithdrawal = 60, srcCancellation = 300,
      srcPublicCancellation = 600, dstWithdrawal = None, dstPublicWithdrawal = None,
      dstCancellation = None\<rparr>\<rparr> 700) = Str ''No time limit'' \<and>
   nextPhase (determineEscrowPhase
     \<lparr>timelocks = \<lparr>srcWithdrawal = 120, srcPublicWithdrawal = 60, srcCancellation = 300,
      srcPublicCancellation = 600, dstWithdrawal = None, dstPublicWithdrawal = None,
      dstCancellation = None\<rparr>\<rparr> 700) = EXPIRED"
proof -
  let ?im = "\<lparr>timelocks = \<lparr>srcWithdrawal = 120, srcPublicWithdrawal = 60, srcCancellation = 300,
      srcPublicCancellation = 600, dstWithdrawal = None, dstPublicWithdrawal = None,
      dstCancellation = None\<rparr>\<rparr>"
  have last: "srcWithdrawal (timelocks ?im) \<le> srcPublicCancellation (timelocks ?im) \<and>
    srcPublicWithdrawal (timelocks ?im) \<le> srcPublicCancellation (timelocks ?im) \<and>
    srcCancellation (timelocks ?im) \<le> srcPublicCancellation (timelocks ?im) \<and>
    srcPublicCancellation (timelocks ?im) \<le> 700"
    by simp
  from terminal_phase [of ?im 700] last show ?thesis
    by simp
qed

text \<open>
  The claim as stated, for every schedule, fails on timelocks in decreasing order: the
  time 400 is past \<open>t3 = - 60\<close>, and the phase is FINALITY.
\<close>

theorem terminal_phase_counterexample:
  "srcPublicCancellation
     \<lparr>srcWithdrawal = 600, srcPublicWithdrawal = 300, srcCancellation = 120,
      srcPublicCancellation = - 60, dstWithdrawal = None, dstPublicWithdrawal = None,
      dstCancellation = None\<rparr> \<le> 400 \<and>
   phase (determineEscrowPhase
     \<lparr>timelocks = \<lparr>srcWithdrawal = 600, srcPublicWithdrawal = 300, srcCancellation = 120,
      srcPublicCancellation = - 60, dstWithdrawal = None, dstPublicWithdrawal = None,
      dstCancellation = None\<rparr>\<rparr> 400) = FINALITY \<and>
   phase (determineEscrowPhase
     \<lparr>timelocks = \<lparr>srcWithdrawal = 600, srcPublicWithdrawal = 300, srcCancellation = 120,
      srcPublicCancellation = - 60, dstWithdrawal = None, dstPublicWithdrawal = None,
      dstCancellation = None\<rparr>\<rparr> 400) \<noteq> PUBLIC_CANCELLATION"
  by (simp add: phase_determineEscrowPhase)

subsection \<open>Construction of timelocks\<close>

text \<open>
  Claim C7, amended.  The timelocks stored with a deployment and the ones handed to the
  phase computation are plain objects, and the scripts run no ordering validation on
  them (the one value made by the external SDK's \<^verbatim>\<open>TimeLocks.new\<close> is never used).  The
  timelocks the scripts build themselves (epoch plus 60, 120, 300 and 600 seconds) are
  ordered and not before the epoch, for every epoch.  Immutables found in an order file
  are handed to the phase computation as they are, whatever the order of their
  boundaries; nothing is rejected.
\<close>

theorem timelocks_unvalidated:
  "ordered_timelocks (escrowTimelocks epoch) \<and>
   ordered_timelocks (mockTimelocks epoch) \<and>
   epoch \<le> srcWithdrawal (escrowTimelocks epoch) \<and>
   epoch \<le> srcWithdrawal (mockTimelocks epoch) \<and>
   chooseImmutables (Some im) nowSeconds = im \<and>
   mainPhaseInfo (Some im) nowSeconds currentTime = determineEscrowPhase im currentTime \<and>
   mainPhaseInfo None nowSeconds currentTime
     = determineEscrowPhase \<lparr>timelocks = mockTimelocks nowSeconds\<rparr> currentTime"
  by (simp add: ordered_timelocks_def escrowTimelocks_def
      mockTimelocks_def chooseImmutables_def mainPhaseInfo_def)

text \<open>
  The claim as stated fails: timelocks in decreasing order with a negative value, read
  from an order file, reach the phase computation, which reports FINALITY with 200
  seconds remaining at time 400.
\<close>

theorem unordered_timelocks_counterexample:
  "\<not> ordered_timelocks
     \<lparr>srcWithdrawal = 600, srcPublicWithdrawal = 300, srcCancellation = 120,
      srcPublicCancellation = - 60, dstWithdrawal = None, dstPublicWithdrawal = None,
      dstCancellation = None\<rparr> \<and>
   phase (mainPhaseInfo
     (Some \<lparr>timelocks = \<lparr>srcWithdrawal = 600, srcPublicWithdrawal = 300, srcCancellation = 120,
      srcPublicCancellation = - 60, dstWithdrawal = None, dstPublicWithdrawal = None,
      dstCancellation = None\<rparr>\<rparr>) 0 400) = FINALITY \<and>
   timeRemaining (mainPhaseInfo
     (Some \<lparr>timelocks = \<lparr>srcWithdrawal = 600, srcPublicWithdrawal = 300, srcCancellation = 120,
      srcPublicCancellation = - 60, dstWithdrawal = None, dstPublicWithdrawal = None,
      dstCancellation = None\<rparr>\<rparr>) 0 400) = Num 200"
  by (simp add: ordered_timelocks_def mainPhaseInfo_def chooseImmutables_def
      determineEscrowPhase_def Let_def)

section \<open>Properties of the formatting\<close>

lemma js_rem_nonneg: "0 \<le> a \<Longrightarrow> 0 < b \<Longrightarrow> js_rem a b = a mod b"
  by (simp add: js_rem_def)

lemma split_seconds:
  fixes s :: int
  shows "s div 86400 * 86400 + s mod 86400 div 3600 * 3600 + s mod 3600 div 60 * 60 + s mod 60 = s"
proof -
  have a: "s mod 86400 mod 3600 = s mod 3600"
    by (rule mod_mod_cancel) simp
  have b: "s mod 3600 mod 60 = s mod 60"
    by (rule mod_mod_cancel) simp
  have "s = s div 86400 * 86400 + s mod 86400"
    by simp
  also have "s mod 86400 = s mod 86400 div 3600 * 3600 + s mod 86400 mod 3600"
    by simp
  also have "s mod 86400 mod 3600 = s mod 3600"
    by (rule a)
  also have "s mod 3600 = s mod 3600 div 60 * 60 + s mod 3600 mod 60"
    by simp
  also have "s mod 3600 mod 60 = s mod 60"
    by (rule b)
  finally show ?thesis by simp
qed

text \<open>
  Claim C10.  For every number of seconds that is not negative the four components
  computed by \<^verbatim>\<open>formatTimeRemaining\<close> add up to it,
  \<open>days * 86400 + hours * 3600 + minutes * 60 + secs = seconds\<close>, with \<open>hours < 24\<close>,
  \<open>minutes < 60\<close> and \<open>secs < 60\<close> (none of them negative); a string argument is returned
  unchanged.
\<close>

theorem formatTimeRemaining_components:
  assumes "0 \<le> seconds"
  shows "days seconds * 86400 + hours seconds * 3600 + minutes seconds * 60 + secs seconds
           = seconds \<and>
         0 \<le> days seconds \<and>
         0 \<le> hours seconds \<and> hours seconds < 24 \<and>
         0 \<le> minutes seconds \<and> minutes seconds < 60 \<and>
         0 \<le> secs seconds \<and> secs seconds < 60 \<and>
         formatTimeRemaining (Str label) = label"
proof -
  from assms have r: "js_rem seconds 86400 = seconds mod 86400"
    "js_rem seconds 3600 = seconds mod 3600" "js_rem seconds 60 = seconds mod 60"
    by (simp_all add: js_rem_nonneg)
  have sum: "days seconds * 86400 + hours seconds * 3600 + minutes seconds * 60 + secs seconds
               = seconds"
    unfolding days_def hours_def minutes_def secs_def r by (rule split_seconds)
  have d: "0 \<le> days seconds" using assms by (simp add: days_def)
  have h: "0 \<le> hours seconds \<and> hours seconds < 24"
    unfolding hours_def r by (simp add: div_less_iff_less_mult pos_imp_zdiv_nonneg_iff)
  have m: "0 \<le> minutes seconds \<and> minutes seconds < 60"
    unfolding minutes_def r by (simp add: div_less_iff_less_mult pos_imp_zdiv_nonneg_iff)
  have s: "0 \<le> secs seconds \<and> secs seconds < 60"
    unfolding secs_def r by simp
  from sum d h m s show ?thesis by simp
qed

theorem formatTimeRemaining_components_witness:
  "(0::int) \<le> 90061 \<and>
   days 90061 = 1 \<and> hours 90061 = 1 \<and> minutes 90061 = 1 \<and> secs 90061 = 1 \<and>
   days 90061 * 86400 + hours 90061 * 3600 + minutes 90061 * 60 + secs 90061 = 90061 \<and>
   formatTimeRemaining (Num 90061) = ''1d 1h 1m 1s'' \<and>
   formatTimeRemaining (Str ''No time limit'') = ''No time limit''"
proof -
  have pos: "(0::int) \<le> 90061" by simp
  have parts: "days 90061 = 1 \<and> hours 90061 = 1 \<and> minutes 90061 = 1 \<and> secs 90061 = 1"
    by (simp add: days_def hours_def minutes_def secs_def js_rem_def)
  have one: "numberToString 1 = ''1''"
    by (simp add: numberToString_def nat_text.simps digit_char_def)
  from parts one have shown: "formatTimeRemaining (Num 90061) = ''1d 1h 1m 1s''"
    by simp
  from formatTimeRemaining_components [OF pos, of "''No time limit''"] parts shown
  show ?thesis
    by simp
qed

section \<open>Properties of the deployment script\<close>

subsection \<open>Auxiliary facts\<close>

lemma sample_total:
  "totalFundingAmount (makeEscrowImmutables ''0xA0'' ''0xB0'' ''0xC1'' ''0xC2'' ''0x00'' 2000 1000 1000) = 3000"
  by (simp add: totalFundingAmount_def makeEscrowImmutables_def)

lemma sendAndWait_status: "sendAndWait outcome = Inr r \<Longrightarrow> receiptStatus r = 1"
  by (auto simp add: sendAndWait_def split: attempt_outcome.splits)

lemma sentRequests_append: "sentRequests (xs @ ys) = sentRequests xs @ sentRequests ys"
  by (induction xs rule: sentRequests.induct) simp_all

lemma sentRequests_attemptCalls:
  "set (sentRequests (attemptCalls outcome request)) \<subseteq> {request}"
  by (simp add: attemptCalls_def split: attempt_outcome.splits)

lemma fundEscrow_calls:
  "snd (fundEscrow firstOutcome retryOutcome im deployerBalance ed) =
    (if deployerBalance < totalFundingAmount im then []
     else if isl (sendAndWait firstOutcome) then
       attemptCalls firstOutcome (fundingRequest (contractAddress ed) im) @
       attemptCalls retryOutcome (alternativeFundingRequest (contractAddress ed) im)
     else attemptCalls firstOutcome (fundingRequest (contractAddress ed) im))"
  by (simp add: fundEscrow_def Let_def split: sum.splits)

lemma fundEscrow_values:
  assumes "r \<in> set (sentRequests (snd (fundEscrow firstOutcome retryOutcome im deployerBalance ed)))"
  shows "txValue r = amount im + safetyDeposit im \<and> txTo r = contractAddress ed"
proof -
  from assms sentRequests_attemptCalls [of firstOutcome "fundingRequest (contractAddress ed) im"]
    sentRequests_attemptCalls [of retryOutcome "alternativeFundingRequest (contractAddress ed) im"]
  have "r = fundingRequest (contractAddress ed) im \<or>
        r = alternativeFundingRequest (contractAddress ed) im"
    by (auto simp add: fundEscrow_calls sentRequests_append split: if_splits)
  then show ?thesis
    by (auto simp add: fundingRequest_def alternativeFundingRequest_def totalFundingAmount_def)
qed

text \<open>A first attempt that succeeds completes the funding, and no retry is made.\<close>

lemma fundEscrow_first_success:
  assumes "totalFundingAmount im \<le> deployerBalance"
    and "sendAndWait firstOutcome = Inr fundingReceipt"
  shows "fundingStatus (fst (fundEscrow firstOutcome retryOutcome im deployerBalance ed))
           = Some ''completed'' \<and>
         snd (fundEscrow firstOutcome retryOutcome im deployerBalance ed)
           = attemptCalls firstOutcome (fundingRequest (contractAddress ed) im)"
  using assms sendAndWait_status [OF assms(2)]
  by (simp add: fundEscrow_def)

text \<open>
  The funding ends \<^verbatim>\<open>'failed'\<close> only when both attempts throw: the branches of lines
  437-441 and 467-471 for a returned receipt whose status is not 1 are never taken.
\<close>

lemma fundEscrow_failed_iff:
  assumes "totalFundingAmount im \<le> deployerBalance"
  shows "fundingStatus (fst (fundEscrow firstOutcome retryOutcome im deployerBalance ed))
           = Some ''failed''
         \<longleftrightarrow> isl (sendAndWait firstOutcome) \<and> isl (sendAndWait retryOutcome)"
  using assms
  by (auto simp add: fundEscrow_def Let_def sendAndWait_def
      split: sum.splits attempt_outcome.splits)

subsection \<open>Funding and its retry\<close>

text \<open>
  Claim C8.  When a funding attempt is made (the deployer's balance covers the total)
  and fails, that is, throws an error, which a reverted transaction does as well,
  exactly one retry is performed: the calls of the run are those of the first attempt
  followed by those of one further attempt, two fee queries in all, and the retry's
  transaction has the gas limit raised from 1000000 to 2000000, with the same
  destination and value.  If the retry fails too, the funding status is \<^verbatim>\<open>'failed'\<close> and
  the funding error carries both messages, the first attempt's and the retry's; if the
  retry succeeds, the funding status is \<^verbatim>\<open>'completed'\<close>.
\<close>

theorem funding_retry:
  assumes enough: "totalFundingAmount im \<le> deployerBalance"
    and first: "sendAndWait firstOutcome = Inl firstMessage"
  shows
    "snd (fundEscrow firstOutcome retryOutcome im deployerBalance ed) =
       attemptCalls firstOutcome (fundingRequest (contractAddress ed) im) @
       attemptCalls retryOutcome (alternativeFundingRequest (contractAddress ed) im) \<and>
     length (filter (\<lambda>c. c = GetFeeData)
       (snd (fundEscrow firstOutcome retryOutcome im deployerBalance ed))) = 2 \<and>
     txGasLimit (fundingRequest (contractAddress ed) im) = 1000000 \<and>
     txGasLimit (alternativeFundingRequest (contractAddress ed) im) = 2000000 \<and>
     txValue (alternativeFundingRequest (contractAddress ed) im)
       = txValue (fundingRequest (contractAddress ed) im) \<and>
     txTo (alternativeFundingRequest (contractAddress ed) im)
       = txTo (fundingRequest (contractAddress ed) im) \<and>
     (case sendAndWait retryOutcome of
        Inl retryMessage \<Rightarrow>
          fundingStatus (fst (fundEscrow firstOutcome retryOutcome im deployerBalance ed))
            = Some ''failed'' \<and>
          fundingError (fst (fundEscrow firstOutcome retryOutcome im deployerBalance ed))
            = Some (''Both attempts failed: '' @ firstMessage @ '', '' @ retryMessage)
      | Inr alternativeReceipt \<Rightarrow>
          fundingStatus (fst (fundEscrow firstOutcome retryOutcome im deployerBalance ed))
            = Some ''completed'' \<and>
          fundingTxHash (fst (fundEscrow firstOutcome retryOutcome im deployerBalance ed))
            = Some (receiptHash alternativeReceipt))"
proof -
  from enough have go: "\<not> deployerBalance < totalFundingAmount im"
    by simp
  from first have failed: "isl (sendAndWait firstOutcome)"
    by simp
  have calls: "snd (fundEscrow firstOutcome retryOutcome im deployerBalance ed) =
       attemptCalls firstOutcome (fundingRequest (contractAddress ed) im) @
       attemptCalls retryOutcome (alternativeFundingRequest (contractAddress ed) im)"
    using go failed by (simp add: fundEscrow_calls)
  have one_query: "length (filter (\<lambda>c. c = GetFeeData) (attemptCalls outcome request)) = 1"
    for outcome request
    by (simp add: attemptCalls_def split: attempt_outcome.splits)
  have queries: "length (filter (\<lambda>c. c = GetFeeData)
       (snd (fundEscrow firstOutcome retryOutcome im deployerBalance ed))) = 2"
    unfolding calls by (simp add: one_query)
  have requests: "txGasLimit (fundingRequest (contractAddress ed) im) = 1000000 \<and>
     txGasLimit (alternativeFundingRequest (contractAddress ed) im) = 2000000 \<and>
     txValue (alternativeFundingRequest (contractAddress ed) im)
       = txValue (fundingRequest (contractAddress ed) im) \<and>
     txTo (alternativeFundingRequest (contractAddress ed) im)
       = txTo (fundingRequest (contractAddress ed) im)"
    by (simp add: fundingRequest_def alternativeFundingRequest_def)
  have outcome: "(case sendAndWait retryOutcome of
        Inl retryMessage \<Rightarrow>
          fundingStatus (fst (fundEscrow firstOutcome retryOutcome im deployerBalance ed))
            = Some ''failed'' \<and>
          fundingError (fst (fundEscrow firstOutcome retryOutcome im deployerBalance ed))
            = Some (''Both attempts failed: '' @ firstMessage @ '', '' @ retryMessage)
      | Inr alternativeReceipt \<Rightarrow>
          fundingStatus (fst (fundEscrow firstOutcome retryOutcome im deployerBalance ed))
            = Some ''completed'' \<and>
          fundingTxHash (fst (fundEscrow firstOutcome retryOutcome im deployerBalance ed))
            = Some (receiptHash alternativeReceipt))"
  proof (cases "sendAndWait retryOutcome")
    case (Inl retryMessage)
    with go first show ?thesis
      by (simp add: fundEscrow_def Let_def)
  next
    case (Inr alternativeReceipt)
    with go first sendAndWait_status [OF Inr] show ?thesis
      by (simp add: fundEscrow_def Let_def)
  qed
  from calls queries requests outcome show ?thesis
    by simp
qed

text \<open>
  The witness: the first transaction is mined with status 0, so \<^verbatim>\<open>wait()\<close> throws; the
  retry times out.
\<close>

theorem funding_retry_witness:
  "totalFundingAmount (makeEscrowImmutables ''0xA0'' ''0xB0'' ''0xC1'' ''0xC2'' ''0x00'' 2000 1000 1000)
     \<le> 5000 \<and>
   sendAndWait (Reverted ''0xF1'' ''transaction execution reverted'')
     = Inl ''transaction execution reverted'' \<and>
   snd (fundEscrow (Reverted ''0xF1'' ''transaction execution reverted'')
       (WaitThrew ''0xF2'' ''timeout'')
       (makeEscrowImmutables ''0xA0'' ''0xB0'' ''0xC1'' ''0xC2'' ''0x00'' 2000 1000 1000) 5000
       ((pendingDeployment ''0xD0''
           (makeEscrowImmutables ''0xA0'' ''0xB0'' ''0xC1'' ''0xC2'' ''0x00'' 2000 1000 1000))
          \<lparr>contractAddress := ''0xE0''\<rparr>))
     = [GetFeeData,
        SendTransaction \<lparr>txTo = ''0xE0'', txValue = 3000, txGasLimit = 1000000\<rparr>,
        GetFeeData,
        SendTransaction \<lparr>txTo = ''0xE0'', txValue = 3000, txGasLimit = 2000000\<rparr>] \<and>
   fundingStatus (fst (fundEscrow (Reverted ''0xF1'' ''transaction execution reverted'')
       (WaitThrew ''0xF2'' ''timeout'')
       (makeEscrowImmutables ''0xA0'' ''0xB0'' ''0xC1'' ''0xC2'' ''0x00'' 2000 1000 1000) 5000
       ((pendingDeployment ''0xD0''
           (makeEscrowImmutables ''0xA0'' ''0xB0'' ''0xC1'' ''0xC2'' ''0x00'' 2000 1000 1000))
          \<lparr>contractAddress := ''0xE0''\<rparr>)))
     = Some ''failed'' \<and>
   fundingError (fst (fundEscrow (Reverted ''0xF1'' ''transaction execution reverted'')
       (WaitThrew ''0xF2'' ''timeout'')
       (makeEscrowImmutables ''0xA0'' ''0xB0'' ''0xC1'' ''0xC2'' ''0x00'' 2000 1000 1000) 5000
       ((pendingDeployment ''0xD0''
           (makeEscrowImmutables ''0xA0'' ''0xB0'' ''0xC1'' ''0xC2'' ''0x00'' 2000 1000 1000))
          \<lparr>contractAddress := ''0xE0''\<rparr>)))
     = Some ''Both attempts failed: transaction execution reverted, timeout''"
proof -
  let ?im = "makeEscrowImmutables ''0xA0'' ''0xB0'' ''0xC1'' ''0xC2'' ''0x00'' 2000 1000 1000"
  let ?ed = "(pendingDeployment ''0xD0'' ?im) \<lparr>contractAddress := ''0xE0''\<rparr>"
  let ?first = "Reverted ''0xF1'' ''transaction execution reverted''"
  let ?retry = "WaitThrew ''0xF2'' ''timeout''"
  have enough: "totalFundingAmount ?im \<le> 5000"
    by (simp add: sample_total)
  have first: "sendAndWait ?first = Inl ''transaction execution reverted''"
    by (simp add: sendAndWait_def)
  have second: "sendAndWait ?retry = Inl ''timeout''"
    by (simp add: sendAndWait_def)
  have calls: "attemptCalls ?first (fundingRequest (contractAddress ?ed) ?im) @
      attemptCalls ?retry (alternativeFundingRequest (contractAddress ?ed) ?im) =
      [GetFeeData,
       SendTransaction \<lparr>txTo = ''0xE0'', txValue = 3000, txGasLimit = 1000000\<rparr>,
       GetFeeData,
       SendTransaction \<lparr>txTo = ''0xE0'', txValue = 3000, txGasLimit = 2000000\<rparr>]"
    by (simp add: attemptCalls_def fundingRequest_def alternativeFundingRequest_def sample_total)
  from funding_retry [of ?im 5000 ?first "''transaction execution reverted''" ?retry ?ed,
      OF enough first] second calls enough first
  show ?thesis
    by simp
qed

subsection \<open>Verification and the funded amount\<close>

text \<open>
  Claim C2, amended.  Every funding transaction the script hands to the wallet carries exactly
  \<open>amount + safetyDeposit\<close>.  When the three reads of the verification step succeed, the
  record is marked \<^verbatim>\<open>'verified'\<close> whatever the balance of the contract is, and no
  verification error is recorded.  After a completed funding a balance below
  \<open>amount + safetyDeposit\<close> is reported on the console only (``balance insufficient''),
  and every balance at or above it, an over-funded one included, is reported as verified.
\<close>

theorem verification_ignores_balance:
  assumes delay: "readRescueDelay reads = Inr delay"
    and balance: "readBalance reads = Inr balance"
    and factory: "readFactory reads = Inr factory"
  shows
    "verificationStatus (fst (verifyDeployment reads im ed)) = Some ''verified'' \<and>
     verificationError (fst (verifyDeployment reads im ed)) = verificationError ed \<and>
     contractBalance (fst (verifyDeployment reads im ed)) = Some (numberToString balance) \<and>
     (BalanceInsufficient (amount im + safetyDeposit im) balance
        \<in> set (snd (verifyDeployment reads im ed))
      \<longleftrightarrow> fundingStatus ed = Some ''completed'' \<and> balance < amount im + safetyDeposit im) \<and>
     (BalanceVerified \<in> set (snd (verifyDeployment reads im ed))
      \<longleftrightarrow> fundingStatus ed = Some ''completed'' \<and> amount im + safetyDeposit im \<le> balance) \<and>
     (\<forall>r \<in> set (sentRequests (snd (fundEscrow firstOutcome retryOutcome im deployerBalance ed0))).
        txValue r = amount im + safetyDeposit im) \<and>
     txValue (fundingRequest address im) = amount im + safetyDeposit im \<and>
     txValue (alternativeFundingRequest address im) = amount im + safetyDeposit im"
proof -
  have status: "verificationStatus (fst (verifyDeployment reads im ed)) = Some ''verified'' \<and>
     verificationError (fst (verifyDeployment reads im ed)) = verificationError ed \<and>
     contractBalance (fst (verifyDeployment reads im ed)) = Some (numberToString balance)"
    using delay balance factory by (simp add: verifyDeployment_def Let_def)
  have lines: "snd (verifyDeployment reads im ed) =
      [if numberToString delay = numberToString rescueDelaySeconds
       then RescueDelayVerified else RescueDelayMismatch rescueDelaySeconds delay,
       if fundingStatus ed = Some ''completed'' then
         (if balance \<ge> totalFundingAmount im then BalanceVerified
          else BalanceInsufficient (totalFundingAmount im) balance)
       else BalanceCheckCompleted (fundingStatus ed),
       VerificationComplete factory]"
    using delay balance factory by (simp add: verifyDeployment_def Let_def)
  have low: "BalanceInsufficient (amount im + safetyDeposit im) balance
        \<in> set (snd (verifyDeployment reads im ed))
      \<longleftrightarrow> fundingStatus ed = Some ''completed'' \<and> balance < amount im + safetyDeposit im"
    unfolding lines by (auto simp add: totalFundingAmount_def)
  have ok: "BalanceVerified \<in> set (snd (verifyDeployment reads im ed))
      \<longleftrightarrow> fundingStatus ed = Some ''completed'' \<and> amount im + safetyDeposit im \<le> balance"
    unfolding lines by (auto simp add: totalFundingAmount_def)
  have sent:
    "\<forall>r \<in> set (sentRequests (snd (fundEscrow firstOutcome retryOutcome im deployerBalance ed0))).
        txValue r = amount im + safetyDeposit im"
    by (simp add: fundEscrow_values)
  have configured: "txValue (fundingRequest address im) = amount im + safetyDeposit im \<and>
     txValue (alternativeFundingRequest address im) = amount im + safetyDeposit im"
    by (simp add: fundingRequest_def alternativeFundingRequest_def totalFundingAmount_def)
  from status low ok sent configured show ?thesis by blast
qed

theorem verification_ignores_balance_witness:
  "readRescueDelay \<lparr>readRescueDelay = Inr 1800, readBalance = Inr 2999, readFactory = Inr ''0xFA''\<rparr>
     = Inr 1800 \<and>
   readBalance \<lparr>readRescueDelay = Inr 1800, readBalance = Inr 2999, readFactory = Inr ''0xFA''\<rparr>
     = Inr 2999 \<and>
   readFactory \<lparr>readRescueDelay = Inr 1800, readBalance = Inr 2999, readFactory = Inr ''0xFA''\<rparr>
     = Inr ''0xFA'' \<and>
   verificationStatus (fst (verifyDeployment
       \<lparr>readRescueDelay = Inr 1800, readBalance = Inr 2999, readFactory = Inr ''0xFA''\<rparr>
       (makeEscrowImmutables ''0xA0'' ''0xB0'' ''0xC1'' ''0xC2'' ''0x00'' 2000 1000 1000)
       ((pendingDeployment ''0xD0''
           (makeEscrowImmutables ''0xA0'' ''0xB0'' ''0xC1'' ''0xC2'' ''0x00'' 2000 1000 1000))
          \<lparr>fundingStatus := Some ''completed''\<rparr>)))
     = Some ''verified'' \<and>
   BalanceInsufficient 3000 2999 \<in> set (snd (verifyDeployment
       \<lparr>readRescueDelay = Inr 1800, readBalance = Inr 2999, readFactory = Inr ''0xFA''\<rparr>
       (makeEscrowImmutables ''0xA0'' ''0xB0'' ''0xC1'' ''0xC2'' ''0x00'' 2000 1000 1000)
       ((pendingDeployment ''0xD0''
           (makeEscrowImmutables ''0xA0'' ''0xB0'' ''0xC1'' ''0xC2'' ''0x00'' 2000 1000 1000))
          \<lparr>fundingStatus := Some ''completed''\<rparr>)))"
proof -
  let ?reads = "\<lparr>readRescueDelay = Inr 1800, readBalance = Inr 2999, readFactory = Inr ''0xFA''\<rparr>"
  let ?im = "makeEscrowImmutables ''0xA0'' ''0xB0'' ''0xC1'' ''0xC2'' ''0x00'' 2000 1000 1000"
  let ?ed = "(pendingDeployment ''0xD0'' ?im) \<lparr>fundingStatus := Some ''completed''\<rparr>"
  have d: "readRescueDelay ?reads = Inr 1800" by simp
  have b: "readBalance ?reads = Inr 2999" by simp
  have f: "readFactory ?reads = Inr ''0xFA''" by simp
  have sums: "amount ?im + safetyDeposit ?im = 3000"
    by (simp add: makeEscrowImmutables_def)
  have funded: "fundingStatus ?ed = Some ''completed''" by simp
  from verification_ignores_balance [OF d b f, of ?im ?ed] sums funded d b f
  show ?thesis
    by simp
qed

text \<open>
  The claim as stated fails: after a completed funding of 3000, a contract balance of
  2999 and one of 3001 both end with the record marked \<^verbatim>\<open>'verified'\<close>, and for 3001 no
  console line reports a mismatch.
\<close>

theorem verification_mismatch_counterexample:
  "verificationStatus (fst (deployFundVerify (Inr (''0xE0'', ''0xD1'')) (Inr 5000)
       (Confirmed ''0xF1'' 21000) (Confirmed ''0xF2'' 21000)
       \<lparr>readRescueDelay = Inr 1800, readBalance = Inr 2999, readFactory = Inr ''0xFA''\<rparr>
       (makeEscrowImmutables ''0xA0'' ''0xB0'' ''0xC1'' ''0xC2'' ''0x00'' 2000 1000 1000)
       (pendingDeployment ''0xD0''
          (makeEscrowImmutables ''0xA0'' ''0xB0'' ''0xC1'' ''0xC2'' ''0x00'' 2000 1000 1000))))
     = Some ''verified'' \<and>
   verificationStatus (fst (deployFundVerify (Inr (''0xE0'', ''0xD1'')) (Inr 5000)
       (Confirmed ''0xF1'' 21000) (Confirmed ''0xF2'' 21000)
       \<lparr>readRescueDelay = Inr 1800, readBalance = Inr 3001, readFactory = Inr ''0xFA''\<rparr>
       (makeEscrowImmutables ''0xA0'' ''0xB0'' ''0xC1'' ''0xC2'' ''0x00'' 2000 1000 1000)
       (pendingDeployment ''0xD0''
          (makeEscrowImmutables ''0xA0'' ''0xB0'' ''0xC1'' ''0xC2'' ''0x00'' 2000 1000 1000))))
     = Some ''verified'' \<and>
   snd (snd (deployFundVerify (Inr (''0xE0'', ''0xD1'')) (Inr 5000)
       (Confirmed ''0xF1'' 21000) (Confirmed ''0xF2'' 21000)
       \<lparr>readRescueDelay = Inr 1800, readBalance = Inr 3001, readFactory = Inr ''0xFA''\<rparr>
       (makeEscrowImmutables ''0xA0'' ''0xB0'' ''0xC1'' ''0xC2'' ''0x00'' 2000 1000 1000)
       (pendingDeployment ''0xD0''
          (makeEscrowImmutables ''0xA0'' ''0xB0'' ''0xC1'' ''0xC2'' ''0x00'' 2000 1000 1000))))
     = [RescueDelayVerified, BalanceVerified, VerificationComplete ''0xFA'']"
  by (simp add: deployFundVerify_def fundEscrow_def verifyDeployment_def sample_total
      fundingRequest_def pendingDeployment_def rescueDelaySeconds_def sendAndWait_def
      attemptCalls_def Let_def)

section \<open>Properties of the event query\<close>

subsection \<open>Auxiliary facts\<close>

text \<open>Each loop maps its events when every block lookup succeeds.\<close>

lemma processWithdrawals_ok:
  "\<forall>e \<in> set events. getBlock p (eventBlockNumber e) = Inr (blockTime (eventBlockNumber e)) \<Longrightarrow>
   processWithdrawals p events =
     Inr (map (\<lambda>e. \<lparr>blockNumber = eventBlockNumber e,
                     timestamp = blockTime (eventBlockNumber e),
                     transactionHash = eventTransactionHash e,
                     secret = eventSecret e\<rparr>) events)"
  by (induction events) simp_all

lemma processCancellations_ok:
  "\<forall>e \<in> set events. getBlock p (eventBlockNumber e) = Inr (blockTime (eventBlockNumber e)) \<Longrightarrow>
   processCancellations p events =
     Inr (map (\<lambda>e. \<lparr>blockNumber = eventBlockNumber e,
                     timestamp = blockTime (eventBlockNumber e),
                     transactionHash = eventTransactionHash e\<rparr>) events)"
  by (induction events) simp_all

lemma processRescues_ok:
  "\<forall>e \<in> set events. getBlock p (eventBlockNumber e) = Inr (blockTime (eventBlockNumber e)) \<Longrightarrow>
   processRescues p events =
     Inr (map (\<lambda>e. \<lparr>blockNumber = eventBlockNumber e,
                     timestamp = blockTime (eventBlockNumber e),
                     transactionHash = eventTransactionHash e,
                     rescuedToken = eventToken e,
                     rescuedAmount = eventAmount e\<rparr>) events)"
  by (induction events) simp_all

text \<open>An error of the query is an error of one of the provider's calls.\<close>

lemma processWithdrawals_error:
  "processWithdrawals p events = Inl msg \<Longrightarrow>
     \<exists>e \<in> set events. getBlock p (eventBlockNumber e) = Inl msg"
  by (induction events) (auto split: sum.splits)

lemma processCancellations_error:
  "processCancellations p events = Inl msg \<Longrightarrow>
     \<exists>e \<in> set events. getBlock p (eventBlockNumber e) = Inl msg"
  by (induction events) (auto split: sum.splits)

lemma processRescues_error:
  "processRescues p events = Inl msg \<Longrightarrow>
     \<exists>e \<in> set events. getBlock p (eventBlockNumber e) = Inl msg"
  by (induction events) (auto split: sum.splits)

lemma queryContractEvents_error:
  assumes "queryContractEvents p = Inl msg"
  shows "getBlockNumber p = Inl msg \<or> (\<exists>kind a b. queryFilter p kind a b = Inl msg) \<or>
         (\<exists>n. getBlock p n = Inl msg)"
  using assms unfolding queryContractEvents_def Let_def
  by (auto split: sum.splits dest: processWithdrawals_error processCancellations_error
      processRescues_error)

subsection \<open>No reconciliation of terminal events\<close>

text \<open>
  Claim C9, amended.  The event query keeps no escrow record and signals no conflict.
  When the provider's calls succeed it returns every withdrawal, cancellation and rescue
  event of the queried block range, in the provider's order, in three separate lists
  with the block's timestamp added, and counts them; withdrawals and cancellations may
  both be present.  (Its only failures are the provider's errors, thrown again.)
\<close>

theorem queryContractEvents_reports_all:
  assumes current: "getBlockNumber p = Inr currentBlock"
    and ws: "queryFilter p Withdrawal (max 0 (currentBlock - 100)) currentBlock = Inr ws"
    and cs: "queryFilter p EscrowCancelled (max 0 (currentBlock - 100)) currentBlock = Inr cs"
    and rs: "queryFilter p FundsRescued (max 0 (currentBlock - 100)) currentBlock = Inr rs"
    and blocks: "\<forall>e \<in> set (ws @ cs @ rs).
                   getBlock p (eventBlockNumber e) = Inr (blockTime (eventBlockNumber e))"
  shows
    "queryContractEvents p =
       Inr \<lparr> withdrawals =
               map (\<lambda>e. \<lparr>blockNumber = eventBlockNumber e,
                          timestamp = blockTime (eventBlockNumber e),
                          transactionHash = eventTransactionHash e,
                          secret = eventSecret e\<rparr>) ws,
             cancellations =
               map (\<lambda>e. \<lparr>blockNumber = eventBlockNumber e,
                          timestamp = blockTime (eventBlockNumber e),
                          transactionHash = eventTransactionHash e\<rparr>) cs,
             rescues =
               map (\<lambda>e. \<lparr>blockNumber = eventBlockNumber e,
                          timestamp = blockTime (eventBlockNumber e),
                          transactionHash = eventTransactionHash e,
                          rescuedToken = eventToken e,
                          rescuedAmount = eventAmount e\<rparr>) rs,
             totalEvents = length ws + length cs + length rs \<rparr>"
proof -
  from blocks have w: "\<forall>e \<in> set ws.
      getBlock p (eventBlockNumber e) = Inr (blockTime (eventBlockNumber e))"
    by simp
  from blocks have c: "\<forall>e \<in> set cs.
      getBlock p (eventBlockNumber e) = Inr (blockTime (eventBlockNumber e))"
    by simp
  from blocks have r: "\<forall>e \<in> set rs.
      getBlock p (eventBlockNumber e) = Inr (blockTime (eventBlockNumber e))"
    by simp
  show ?thesis
    unfolding queryContractEvents_def
    by (simp add: current ws cs rs Let_def processWithdrawals_ok [OF w]
        processCancellations_ok [OF c] processRescues_ok [OF r])
qed

theorem queryContractEvents_reports_all_witness:
  "queryContractEvents
     \<lparr> getBlockNumber = Inr 40,
       queryFilter = (\<lambda>kind fromBlock toBlock. Inr
         (if fromBlock = 0 \<and> toBlock = 40 then
            (case kind of
               Withdrawal \<Rightarrow>
                 [\<lparr>eventBlockNumber = 20, eventTransactionHash = ''0xA1'',
                   eventSecret = Some ''0x5EC'', eventToken = None, eventAmount = None\<rparr>]
             | EscrowCancelled \<Rightarrow>
                 [\<lparr>eventBlockNumber = 30, eventTransactionHash = ''0xB2'',
                   eventSecret = None, eventToken = None, eventAmount = None\<rparr>]
             | FundsRescued \<Rightarrow>
                 [\<lparr>eventBlockNumber = 35, eventTransactionHash = ''0xC3'',
                   eventSecret = None, eventToken = Some ''0x00'', eventAmount = Some 7\<rparr>])
          else [])),
       getBlock = (\<lambda>n. Inr (1000 + n)) \<rparr>
   = Inr \<lparr> withdrawals =
             [\<lparr>blockNumber = 20, timestamp = 1020, transactionHash = ''0xA1'',
               secret = Some ''0x5EC''\<rparr>],
           cancellations =
             [\<lparr>blockNumber = 30, timestamp = 1030, transactionHash = ''0xB2''\<rparr>],
           rescues =
             [\<lparr>blockNumber = 35, timestamp = 1035, transactionHash = ''0xC3'',
               rescuedToken = Some ''0x00'', rescuedAmount = Some 7\<rparr>],
           totalEvents = 3 \<rparr>"
proof -
  let ?w = "\<lparr>eventBlockNumber = 20, eventTransactionHash = ''0xA1'',
             eventSecret = Some ''0x5EC'', eventToken = None, eventAmount = None\<rparr>"
  let ?c = "\<lparr>eventBlockNumber = 30, eventTransactionHash = ''0xB2'',
             eventSecret = None, eventToken = None, eventAmount = None\<rparr>"
  let ?r = "\<lparr>eventBlockNumber = 35, eventTransactionHash = ''0xC3'',
             eventSecret = None, eventToken = Some ''0x00'', eventAmount = Some 7\<rparr>"
  let ?p = "\<lparr> getBlockNumber = Inr 40,
       queryFilter = (\<lambda>kind fromBlock toBlock. Inr
         (if fromBlock = 0 \<and> toBlock = 40 then
            (case kind of Withdrawal \<Rightarrow> [?w] | EscrowCancelled \<Rightarrow> [?c] | FundsRescued \<Rightarrow> [?r])
          else [])),
       getBlock = (\<lambda>n. Inr (1000 + n)) \<rparr>"
  have current: "getBlockNumber ?p = Inr 40" by simp
  have ws: "queryFilter ?p Withdrawal (max 0 (40 - 100)) 40 = Inr [?w]" by simp
  have cs: "queryFilter ?p EscrowCancelled (max 0 (40 - 100)) 40 = Inr [?c]" by simp
  have rs: "queryFilter ?p FundsRescued (max 0 (40 - 100)) 40 = Inr [?r]" by simp
  have blocks: "\<forall>e \<in> set ([?w] @ [?c] @ [?r]).
      getBlock ?p (eventBlockNumber e) = Inr (1000 + eventBlockNumber e)"
    by simp
  from queryContractEvents_reports_all [OF current ws cs rs blocks]
  show ?thesis
    by simp
qed

text \<open>
  The claim as stated fails: for an escrow with a withdrawal event in block 450 and a
  later cancellation event in block 460 the query returns normally, with both events
  reported side by side.
\<close>

theorem queryContractEvents_both_counterexample:
  "queryContractEvents
     \<lparr> getBlockNumber = Inr 500,
       queryFilter = (\<lambda>kind fromBlock toBlock. Inr
         (case kind of
            Withdrawal \<Rightarrow>
              [\<lparr>eventBlockNumber = 450, eventTransactionHash = ''0xA1'',
                eventSecret = Some ''0x5EC'', eventToken = None, eventAmount = None\<rparr>]
          | EscrowCancelled \<Rightarrow>
              [\<lparr>eventBlockNumber = 460, eventTransactionHash = ''0xB2'',
                eventSecret = None, eventToken = None, eventAmount = None\<rparr>]
          | FundsRescued \<Rightarrow> [])),
       getBlock = (\<lambda>n. Inr (1000 + n)) \<rparr>
   = Inr \<lparr> withdrawals =
             [\<lparr>blockNumber = 450, timestamp = 1450, transactionHash = ''0xA1'',
               secret = Some ''0x5EC''\<rparr>],
           cancellations =
             [\<lparr>blockNumber = 460, timestamp = 1460, transactionHash = ''0xB2''\<rparr>],
           rescues = [],
           totalEvents = 2 \<rparr>"
  by (simp add: queryContractEvents_def Let_def)

end
